theory Spec2Isabelle
  imports Main "HOL-Library.AList" "HOL-Library.Multiset"
begin

section \<open>The command line of entc (entc/cmd/entc/entc.go)\<close>

subsection \<open>The argument validator of the init command\<close>

text \<open>
  The validator is the \<^verbatim>\<open>Args\<close> function of the init command:
  \<^verbatim>\<open>
  Args: func(_ *cobra.Command, names []string) error {
      for _, name := range names {
          if !unicode.IsUpper(rune(name[0])) {
              return fmt.Errorf("schema names must begin with uppercase")
          }
      }
      return nil
  }
  \<close>
  A Go string is a sequence of bytes and \<^verbatim>\<open>name[0]\<close> is its first byte, so a name is
  a \<^typ>\<open>string\<close> (a list of 8-bit characters). Indexing the empty string panics; the
  panic is the \<open>Inl\<close> branch of the result. \<open>Inr None\<close> is the nil error.
\<close>

datatype panic = IndexOutOfRange

text \<open>
  \<^verbatim>\<open>unicode.IsUpper\<close> of the Go standard library, on the rune of one byte: for a rune up to
  U+00FF the library reads its Latin-1 property table, whose upper case letters are
  U+0041..U+005A, U+00C0..U+00D6 and U+00D8..U+00DE.
\<close>

definition IsUpper :: "char \<Rightarrow> bool" where
  "IsUpper c =
     (let r = (of_char c :: nat)
      in (65 \<le> r \<and> r \<le> 90) \<or> (192 \<le> r \<and> r \<le> 214) \<or> (216 \<le> r \<and> r \<le> 222))"

fun init_Args :: "string list \<Rightarrow> panic + string option" where
  "init_Args [] = Inr None"
| "init_Args (name # names) =
     (case name of
        [] \<Rightarrow> Inl IndexOutOfRange
      | c # _ \<Rightarrow>
          if \<not> IsUpper c then Inr (Some ''schema names must begin with uppercase'')
          else init_Args names)"

text \<open>The property the validator is after: the name has a first byte, an upper case letter.\<close>

definition begins_upper :: "string \<Rightarrow> bool" where
  "begins_upper name = (case name of [] \<Rightarrow> False | c # _ \<Rightarrow> IsUpper c)"

subsection \<open>The identifier type flag\<close>

text \<open>
  \<^verbatim>\<open>type idType field.Type\<close>: the constants of \<^verbatim>\<open>field.Type\<close> that entc.go names.
  The type's declaration and its \<^verbatim>\<open>String\<close> method live in the schema/field package,
  which is not among the sources here: the method is the parameter \<open>str\<close> of the
  functions below.
\<close>

datatype field_Type = TypeInt | TypeInt64 | TypeUint | TypeUint64 | TypeString

text \<open>
  \<^verbatim>\<open>
  func (t *idType) Set(s string) error {
      switch s {
      case field.TypeInt.String():    *t = idType(field.TypeInt)
      case field.TypeInt64.String():  *t = idType(field.TypeInt64)
      case field.TypeUint.String():   *t = idType(field.TypeUint)
      case field.TypeUint64.String(): *t = idType(field.TypeUint64)
      case field.TypeString.String(): *t = idType(field.TypeString)
      default:
          return errors.New("invalid type")
      }
      return nil
  }
  \<close>
  The cases of a Go switch are tried from the top. The result is the value of \<^verbatim>\<open>*t\<close>
  after the call and the error (\<open>None\<close> for nil).
\<close>

definition idType_Set :: "(field_Type \<Rightarrow> string) \<Rightarrow> field_Type \<Rightarrow> string \<Rightarrow> field_Type \<times> string option" where
  "idType_Set str t s =
     (if s = str TypeInt then (TypeInt, None)
      else if s = str TypeInt64 then (TypeInt64, None)
      else if s = str TypeUint then (TypeUint, None)
      else if s = str TypeUint64 then (TypeUint64, None)
      else if s = str TypeString then (TypeString, None)
      else (t, Some ''invalid type''))"

text \<open>
  The generate command, as far as the identifier type goes. The flag variable starts as
  \<^verbatim>\<open>idType(field.TypeInt)\<close>; cobra parses the flags, calling \<^verbatim>\<open>Set\<close> on the value of
  \<^verbatim>\<open>--idtype\<close> when the flag is given, and calls \<^verbatim>\<open>Run\<close> only when every flag parsed;
  \<^verbatim>\<open>Run\<close> stores the variable in \<^verbatim>\<open>cfg.IDType\<close> and calls \<^verbatim>\<open>loadGraph(path[0], cfg)\<close>.
  The result is the error of the flag, if any, and the calls of \<^verbatim>\<open>loadGraph\<close> made, each
  with its path and identifier type.
\<close>

datatype event = LoadGraph string field_Type

definition generate :: "(field_Type \<Rightarrow> string) \<Rightarrow> string option \<Rightarrow> string \<Rightarrow> string option \<times> event list" where
  "generate str flag path =
     (let idtype = TypeInt
      in case flag of
           None \<Rightarrow> (None, [LoadGraph path idtype])
         | Some s \<Rightarrow>
             (case idType_Set str idtype s of
                (_, Some err) \<Rightarrow> (Some err, [])
              | (idtype', None) \<Rightarrow> (None, [LoadGraph path idtype'])))"

text \<open>
  Modelled from the spec: the names of the identifier kinds. The \<^verbatim>\<open>String\<close> method of
  \<^verbatim>\<open>field.Type\<close> is missing from the sources; the spec lists the selector as one of
  int32, int64, uint32, uint64, string.
\<close>

fun kind_names :: "field_Type \<Rightarrow> string" where
  "kind_names TypeInt = ''int32''"
| "kind_names TypeInt64 = ''int64''"
| "kind_names TypeUint = ''uint32''"
| "kind_names TypeUint64 = ''uint64''"
| "kind_names TypeString = ''string''"

subsection \<open>Loading external templates\<close>

text \<open>
  What \<^verbatim>\<open>loadTemplate\<close> uses of the Go library text/template. A template value names
  one template of a set that all associated templates share; the set maps a name to its
  parse tree. Of a parse tree only its body and whether the library counts it as empty
  (white space and comments only) matter here.
  \<^item> \<^verbatim>\<open>template.New(name)\<close> is a template of that name with an empty set.
  \<^item> \<^verbatim>\<open>t.AddParseTree(name, tree)\<close> stores the tree under the name, replacing a
    definition of that name, except that an empty tree does not replace an existing
    definition; it returns the template of that name, which shares the set.
  \<^item> \<^verbatim>\<open>t.Parse(text)\<close> parses the text into trees, the body under \<^verbatim>\<open>t\<close>'s name and one
    tree per \<^verbatim>\<open>{{define}}\<close>, adds each to the set as \<^verbatim>\<open>AddParseTree\<close> does, and returns
    \<^verbatim>\<open>t\<close>. The parser is the parameter \<open>parse\<close>: from the name and the text to the
    trees with their names (Go has them in a map, so that no name comes twice), or
    \<open>None\<close> for a syntax error.
  \<^item> \<^verbatim>\<open>t.Templates()\<close> lists the templates of the set, in an order that Go leaves open
    (it ranges over a map): \<open>Templates t\<close> is the set of the lists it may return, the
    orderings of the set's entries.
\<close>

record tree =
  IsEmptyTree :: bool
  Root :: string

record Template =
  tmpl_name :: string
  tmpl :: "(string \<times> tree) list"

definition New :: "string \<Rightarrow> Template" where
  "New name = \<lparr> tmpl_name = name, tmpl = [] \<rparr>"

definition associate :: "(string \<times> tree) list \<Rightarrow> string \<Rightarrow> tree \<Rightarrow> (string \<times> tree) list" where
  "associate reg name tr =
     (if map_of reg name \<noteq> None \<and> IsEmptyTree tr then reg else AList.update name tr reg)"

definition AddParseTree :: "Template \<Rightarrow> string \<times> tree \<Rightarrow> Template" where
  "AddParseTree t nt = \<lparr> tmpl_name = fst nt, tmpl = associate (tmpl t) (fst nt) (snd nt) \<rparr>"

definition Parse :: "(string \<Rightarrow> string \<Rightarrow> (string \<times> tree) list option) \<Rightarrow> Template \<Rightarrow> string
    \<Rightarrow> Template option" where
  "Parse parse t text =
     (case parse (tmpl_name t) text of
        None \<Rightarrow> None
      | Some trees \<Rightarrow> Some (t\<lparr> tmpl := tmpl (foldl AddParseTree t trees) \<rparr>))"

definition Templates :: "Template \<Rightarrow> (string \<times> tree) list set" where
  "Templates t = {tts. mset tts = mset (tmpl t)}"

text \<open>
  The file system, as \<^verbatim>\<open>os.Stat\<close>, \<^verbatim>\<open>ioutil.ReadFile\<close> and \<^verbatim>\<open>ioutil.ReadDir\<close> see it: at a
  path there is nothing, a file with its content, or a directory with the names of its
  entries (sorted by name). \<^verbatim>\<open>filepath.Join\<close> puts a separator between its arguments (the
  paths here are clean, so that it has nothing else to do).
\<close>

datatype fsnode = File string | Dir "string list"

definition Join :: "string \<Rightarrow> string \<Rightarrow> string" where
  "Join dir name = dir @ ''/'' @ name"

text \<open>\<^verbatim>\<open>failOnErr\<close> prints the error and ends the process with status 1.\<close>

datatype fatal = StatFailed string | ParseFailed string

text \<open>
  \<^verbatim>\<open>
  func loadTemplate(paths []string) *template.Template {
      t := template.New("external").Funcs(gen.Funcs)
      for _, path := range paths {
          info, err := os.Stat(path)
          failOnErr(err)
          if !info.IsDir() {
              buf, err := ioutil.ReadFile(path)
              failOnErr(err)
              t, err = t.Parse(string(buf))
              failOnErr(err)
              continue
          }
          infos, err := ioutil.ReadDir(path)
          failOnErr(err)
          paths := make([]string, len(infos))
          for i := range infos {
              paths[i] = filepath.Join(path, infos[0].Name())
          }
          for _, tt := range loadTemplate(paths).Templates() {
              t, err = t.AddParseTree(tt.Name(), tt.Tree)
              failOnErr(err)
          }
      }
      return t
  }
  \<close>
  The function is not deterministic: the order in which the templates of a directory are
  added is the order of \<^verbatim>\<open>Templates()\<close>, and the template added last is the one \<^verbatim>\<open>t\<close>
  names afterwards, under whose name a later \<^verbatim>\<open>Parse\<close> stores the body of its text. Nor
  does it always return: it calls itself on the entries of a directory, and an entry can
  lead back to its directory. So the function is a relation between its input and each
  result a run can end with, the fatal error or the template returned; a run that does
  not end has no result. \<open>loadTemplate_loop\<close> is the loop over the paths, from the
  template \<open>t\<close> built so far, with one rule for each way through the loop's body.
\<close>

inductive loadTemplate_loop :: "(string \<Rightarrow> string \<Rightarrow> (string \<times> tree) list option)
    \<Rightarrow> (string \<Rightarrow> fsnode option) \<Rightarrow> Template \<Rightarrow> string list \<Rightarrow> fatal + Template \<Rightarrow> bool"
  for parse :: "string \<Rightarrow> string \<Rightarrow> (string \<times> tree) list option"
  and fs :: "string \<Rightarrow> fsnode option" where
  at_end: "loadTemplate_loop parse fs t [] (Inr t)"
| no_such_path:
    "fs path = None \<Longrightarrow>
     loadTemplate_loop parse fs t (path # paths) (Inl (StatFailed path))"
| bad_file:
    "fs path = Some (File buf) \<Longrightarrow> Parse parse t buf = None \<Longrightarrow>
     loadTemplate_loop parse fs t (path # paths) (Inl (ParseFailed path))"
| a_file:
    "fs path = Some (File buf) \<Longrightarrow> Parse parse t buf = Some t' \<Longrightarrow>
     loadTemplate_loop parse fs t' paths r \<Longrightarrow>
     loadTemplate_loop parse fs t (path # paths) r"
| bad_dir:
    "fs path = Some (Dir infos) \<Longrightarrow>
     loadTemplate_loop parse fs (New ''external'')
        (map (\<lambda>i. Join path (infos ! 0)) [0..<length infos]) (Inl err) \<Longrightarrow>
     loadTemplate_loop parse fs t (path # paths) (Inl err)"
| a_dir:
    "fs path = Some (Dir infos) \<Longrightarrow>
     loadTemplate_loop parse fs (New ''external'')
        (map (\<lambda>i. Join path (infos ! 0)) [0..<length infos]) (Inr inner) \<Longrightarrow>
     tts \<in> Templates inner \<Longrightarrow>
     loadTemplate_loop parse fs (foldl AddParseTree t tts) paths r \<Longrightarrow>
     loadTemplate_loop parse fs t (path # paths) r"


section \<open>The decode templates (entc/gen/template/dialect/sql/decode.tmpl)\<close>

subsection \<open>The descriptors the templates read\<close>

text \<open>
  The templates are executed on a \<^verbatim>\<open>gen.Type\<close> (one entity) and read its
  \<^verbatim>\<open>gen.Field\<close>s. Both types belong to the gen package, which is not among the sources
  here; the records below hold what the templates read of them: \<^verbatim>\<open>$f.Name\<close>,
  \<^verbatim>\<open>$f.Type\<close> and \<^verbatim>\<open>$f.NullType\<close> (texts of Go types), the predicates \<^verbatim>\<open>$f.IsJSON\<close>,
  \<^verbatim>\<open>$f.Nillable\<close>, \<^verbatim>\<open>$f.IsTime\<close> and \<^verbatim>\<open>$.ID.IsString\<close>, and \<^verbatim>\<open>$f.NullTypeField\<close>.
  The last one turns the text of an expression (the scanned cell) into the text of the
  expression that reads the cell's payload, converted to the field's type; it is held as
  the function from the value of the former to the value of the latter.
\<close>

datatype val =
    IntV int          \<comment> \<open>an integer\<close>
  | StrV string       \<comment> \<open>a string\<close>
  | BytesV string     \<comment> \<open>a byte slice\<close>
  | NullV bool val    \<comment> \<open>a nullable wrapper of database/sql: its Valid flag and its payload\<close>
  | PtrV val          \<comment> \<open>a pointer that is not nil, with the value it points to\<close>
  | OtherV string     \<comment> \<open>any other value (a time, a float, a decoded JSON structure)\<close>

record Field =
  Name :: string
  Type :: string
  NullType :: string
  IsJSON :: bool
  Nillable :: bool
  IsTime :: bool
  IsString :: bool
  NullTypeField :: "val \<Rightarrow> val"

record gen_Type =
  TypeName :: string
  Receiver :: string
  ID :: Field
  Fields :: "Field list"

subsection \<open>The text the decode-one template emits\<close>

text \<open>
  The emitted method \<^verbatim>\<open>FromRows\<close> has three parts: the declaration of a local struct
  (the scan target, named \<^verbatim>\<open>v\<close> followed by the receiver), one call of \<^verbatim>\<open>rows.Scan\<close>
  and, after it, one statement for the identifier and one per field. The statements are
  the ones the template can emit:
  \<^item> \<open>AssignID\<close>: \<^verbatim>\<open>recv.ID = scan.ID\<close>
  \<^item> \<open>AssignID_Itoa\<close>: \<^verbatim>\<open>recv.ID = strconv.Itoa(scan.ID)\<close>
  \<^item> \<open>IfUnmarshal name F\<close>:
    \<^verbatim>\<open>if value := scan.F; len(value) > 0 { if err := json.Unmarshal(value, &recv.F); err != nil {
       return fmt.Errorf("unmarshal field name: %v", err) } }\<close>
  \<^item> \<open>AssignAddr F\<close>: \<^verbatim>\<open>recv.F = &scan.F\<close>
  \<^item> \<open>IfValidNew F T conv\<close>: \<^verbatim>\<open>if scan.F.Valid { recv.F = new(T); *recv.F = conv(scan.F) }\<close>
  \<^item> \<open>AssignConv F conv\<close>: \<^verbatim>\<open>recv.F = conv(scan.F)\<close>
  where \<^verbatim>\<open>conv(scan.F)\<close> stands for the text \<^verbatim>\<open>$f.NullTypeField\<close> makes of \<^verbatim>\<open>scan.F\<close>.
\<close>

datatype stmt =
    AssignID
  | AssignID_Itoa
  | IfUnmarshal string string
  | AssignAddr string
  | IfValidNew string string "val \<Rightarrow> val"
  | AssignConv string "val \<Rightarrow> val"

record func_FromRows =
  scan_var :: string
  struct_fields :: "(string \<times> string) list"
  scan_args :: "string list"
  body :: "stmt list"

text \<open>
  Lines 14 and 28 of the template: the identifier's cell is an \<^verbatim>\<open>int\<close> when the
  identifier is a string, and of the identifier's own type otherwise; the statement
  converts with \<^verbatim>\<open>strconv.Itoa\<close> in the first case only.
\<close>

definition id_struct_field :: "gen_Type \<Rightarrow> string \<times> string" where
  "id_struct_field T = (''ID'', if IsString (ID T) then ''int'' else Type (ID T))"

definition emit_id :: "gen_Type \<Rightarrow> stmt" where
  "emit_id T = (if IsString (ID T) then AssignID_Itoa else AssignID)"

text \<open>
  Lines 29 to 48: the statement of one field, chosen by the template's
  \<^verbatim>\<open>if $f.IsJSON ... else if $f.Nillable ... (if $f.IsTime ... else ...) else ...\<close>.
  \<open>pascal\<close> is the template function of that name (of \<^verbatim>\<open>gen.Funcs\<close>, not among
  the sources): a parameter.
\<close>

definition emit_field :: "(string \<Rightarrow> string) \<Rightarrow> Field \<Rightarrow> stmt" where
  "emit_field pascal f =
     (if IsJSON f then IfUnmarshal (Name f) (pascal (Name f))
      else if Nillable f then
        (if IsTime f then AssignAddr (pascal (Name f))
         else IfValidNew (pascal (Name f)) (Type f) (NullTypeField f))
      else AssignConv (pascal (Name f)) (NullTypeField f))"

definition decode_one :: "(string \<Rightarrow> string) \<Rightarrow> gen_Type \<Rightarrow> func_FromRows" where
  "decode_one pascal T =
     \<lparr> scan_var = ''v'' @ Receiver T,
       struct_fields = id_struct_field T # map (\<lambda>f. (pascal (Name f), NullType f)) (Fields T),
       scan_args = ''ID'' # map (\<lambda>f. pascal (Name f)) (Fields T),
       body = emit_id T # map (emit_field pascal) (Fields T) \<rparr>"

subsection \<open>Running the emitted text\<close>

text \<open>
  A struct value is a map from the names of its fields to their values; a field that
  was never assigned has no entry: it holds the zero value of its type (nil, for a
  pointer). An error is one of database/sql's two errors of \<^verbatim>\<open>Scan\<close>, or an error
  made from a message. \<open>IllTyped\<close> is not an error of a run: it marks a statement
  whose cell has not the shape the statement needs (no \<^verbatim>\<open>Valid\<close> field, no length),
  which the Go compiler refuses.
\<close>

type_synonym struct = "string \<rightharpoonup> val"

datatype error =
    ExpectedDestinations nat nat   \<comment> \<open>sql: expected n destination arguments in Scan, not m\<close>
  | ScanErrorOnColumn nat string   \<comment> \<open>sql: Scan error on column index i: the conversion's message\<close>
  | Error string                   \<comment> \<open>errors.New and fmt.Errorf, with the message\<close>
  | IllTyped string

text \<open>
  What the generated code calls of the libraries: database/sql's conversion of a column
  value into a destination of a given Go type (an error message or the value stored), and
  \<^verbatim>\<open>json.Unmarshal(data, &recv.F)\<close>, which is given the field, the data and what the field
  holds, and returns what the field holds afterwards and the error message, if any.
\<close>

record runtime =
  convertAssign :: "string \<Rightarrow> val \<Rightarrow> string + val"
  json_Unmarshal :: "string \<Rightarrow> string \<Rightarrow> val option \<Rightarrow> val option \<times> string option"

text \<open>
  \<^verbatim>\<open>strconv.Itoa\<close> of the Go standard library: the decimal digits, most significant
  first, after a minus sign for a negative number.
\<close>

definition digit_char :: "nat \<Rightarrow> char" where
  "digit_char d = char_of (48 + d)"

fun digits :: "nat \<Rightarrow> string" where
  "digits n = (if n < 10 then [digit_char n] else digits (n div 10) @ [digit_char (n mod 10)])"

declare digits.simps [simp del]

definition Itoa :: "int \<Rightarrow> string" where
  "Itoa i = (if i < 0 then CHR ''-'' # digits (nat (- i)) else digits (nat i))"

text \<open>
  \<^verbatim>\<open>rows.Scan(dest...)\<close> of database/sql: the number of destinations must be the number of
  columns; then each column is converted into its destination, from the left, and the
  first conversion that fails ends the call. A destination is \<^verbatim>\<open>&scan.F\<close>: its Go type is
  the type the struct declares for \<^verbatim>\<open>F\<close>.
\<close>

fun convert_columns :: "runtime \<Rightarrow> (string \<times> string) list \<Rightarrow> nat \<Rightarrow> (string \<times> val) list
    \<Rightarrow> struct \<Rightarrow> error + struct" where
  "convert_columns rt decl i [] sc = Inr sc"
| "convert_columns rt decl i ((F, col) # rest) sc =
     (case map_of decl F of
        None \<Rightarrow> Inl (IllTyped F)
      | Some ty \<Rightarrow>
          (case convertAssign rt ty col of
             Inl msg \<Rightarrow> Inl (ScanErrorOnColumn i msg)
           | Inr v \<Rightarrow> convert_columns rt decl (Suc i) rest (sc(F \<mapsto> v))))"

definition Scan :: "runtime \<Rightarrow> (string \<times> string) list \<Rightarrow> string list \<Rightarrow> val list \<Rightarrow> error + struct" where
  "Scan rt decl dest cols =
     (if length dest \<noteq> length cols then Inl (ExpectedDestinations (length cols) (length dest))
      else convert_columns rt decl 0 (zip dest cols) Map.empty)"

text \<open>One statement, run on the scanned struct \<open>sc\<close> and the receiver \<open>recv\<close>.\<close>

fun exec_stmt :: "runtime \<Rightarrow> struct \<Rightarrow> stmt \<Rightarrow> struct \<Rightarrow> struct \<times> error option" where
  "exec_stmt rt sc AssignID recv =
     (case sc ''ID'' of
        Some v \<Rightarrow> (recv(''ID'' \<mapsto> v), None)
      | None \<Rightarrow> (recv, Some (IllTyped ''ID'')))"
| "exec_stmt rt sc AssignID_Itoa recv =
     (case sc ''ID'' of
        Some (IntV n) \<Rightarrow> (recv(''ID'' \<mapsto> StrV (Itoa n)), None)
      | _ \<Rightarrow> (recv, Some (IllTyped ''ID'')))"
| "exec_stmt rt sc (IfUnmarshal name F) recv =
     (case sc F of
        Some (BytesV value) \<Rightarrow>
          if length value > 0 then
            (case json_Unmarshal rt F value (recv F) of
               (d, Some err) \<Rightarrow> (recv(F := d), Some (Error (''unmarshal field '' @ name @ '': '' @ err)))
             | (d, None) \<Rightarrow> (recv(F := d), None))
          else (recv, None)
      | _ \<Rightarrow> (recv, Some (IllTyped F)))"
| "exec_stmt rt sc (AssignAddr F) recv =
     (case sc F of
        Some v \<Rightarrow> (recv(F \<mapsto> PtrV v), None)
      | None \<Rightarrow> (recv, Some (IllTyped F)))"
| "exec_stmt rt sc (IfValidNew F ty conv) recv =
     (case sc F of
        Some (NullV valid payload) \<Rightarrow>
          if valid then (recv(F \<mapsto> PtrV (conv (NullV valid payload))), None)
          else (recv, None)
      | _ \<Rightarrow> (recv, Some (IllTyped F)))"
| "exec_stmt rt sc (AssignConv F conv) recv =
     (case sc F of
        Some v \<Rightarrow> (recv(F \<mapsto> conv v), None)
      | None \<Rightarrow> (recv, Some (IllTyped F)))"

text \<open>The statements in order; a statement that returns an error ends the method.\<close>

fun exec :: "runtime \<Rightarrow> struct \<Rightarrow> stmt list \<Rightarrow> struct \<Rightarrow> struct \<times> error option" where
  "exec rt sc [] recv = (recv, None)"
| "exec rt sc (s # ss) recv =
     (case exec_stmt rt sc s recv of
        (recv', Some err) \<Rightarrow> (recv', Some err)
      | (recv', None) \<Rightarrow> exec rt sc ss recv')"

text \<open>
  The emitted method on the current row \<open>cols\<close> of the cursor: the receiver as the
  method leaves it (it is mutated in place, so the caller sees it also when the method
  fails) and the error returned (\<open>None\<close> for nil).
\<close>

definition FromRows :: "runtime \<Rightarrow> func_FromRows \<Rightarrow> val list \<Rightarrow> struct \<Rightarrow> struct \<times> error option" where
  "FromRows rt fn cols recv =
     (case Scan rt (struct_fields fn) (scan_args fn) cols of
        Inl err \<Rightarrow> (recv, Some err)
      | Inr sc \<Rightarrow> exec rt sc (body fn) recv)"

subsection \<open>The decode-many template\<close>

text \<open>
  \<^verbatim>\<open>
  func (recv *Slice) FromRows(rows *sql.Rows) error {
      for rows.Next() {
          scan := &Name{}
          if err := scan.FromRows(rows); err != nil {
              return err
          }
          *recv = append(*recv, scan)
      }
      return nil
  }
  \<close>
  The cursor is the list of the rows \<^verbatim>\<open>rows.Next\<close> still has to deliver before it
  returns false (at the end of the rows, or when the cursor itself fails: the method
  never asks \<^verbatim>\<open>rows.Err\<close> which). Each row is decoded into a new record, all of whose
  fields hold their zero value.
\<close>

fun FromRows_many :: "runtime \<Rightarrow> func_FromRows \<Rightarrow> val list list \<Rightarrow> struct list \<Rightarrow> struct list \<times> error option" where
  "FromRows_many rt fn [] recv = (recv, None)"
| "FromRows_many rt fn (cols # rows) recv =
     (case FromRows rt fn cols Map.empty of
        (_, Some err) \<Rightarrow> (recv, Some err)
      | (v, None) \<Rightarrow> FromRows_many rt fn rows (recv @ [v]))"

section \<open>The specification's notions\<close>

text \<open>
  Modelled from the spec: what the expression made by \<^verbatim>\<open>NullTypeField\<close> reads of a
  nullable wrapper. The method belongs to the gen package and is missing from the
  sources; the spec has the decode "copy the unwrapped value across".
\<close>

fun null_payload :: "val \<Rightarrow> val" where
  "null_payload (NullV valid payload) = payload"
| "null_payload v = v"

text \<open>
  The spec's decode strategies, as a closed set, each with the condition under which it
  applies, and the order of precedence in which the conditions are tried: the strategy
  selected is the first one in that order whose condition holds.
\<close>

datatype strategy = JSON | NillableTime | NillableOther | Plain

fun strategy_applies :: "strategy \<Rightarrow> Field \<Rightarrow> bool" where
  "strategy_applies JSON f = IsJSON f"
| "strategy_applies NillableTime f = (Nillable f \<and> IsTime f)"
| "strategy_applies NillableOther f = (Nillable f \<and> \<not> IsTime f)"
| "strategy_applies Plain f = (\<not> Nillable f)"

definition precedence :: "strategy list" where
  "precedence = [JSON, NillableTime, NillableOther, Plain]"

definition select_strategy :: "Field \<Rightarrow> strategy option" where
  "select_strategy f = find (\<lambda>s. strategy_applies s f) precedence"

text \<open>The statement each strategy stands for.\<close>

fun strategy_stmt :: "(string \<Rightarrow> string) \<Rightarrow> Field \<Rightarrow> strategy \<Rightarrow> stmt" where
  "strategy_stmt pascal f JSON = IfUnmarshal (Name f) (pascal (Name f))"
| "strategy_stmt pascal f NillableTime = AssignAddr (pascal (Name f))"
| "strategy_stmt pascal f NillableOther = IfValidNew (pascal (Name f)) (Type f) (NullTypeField f)"
| "strategy_stmt pascal f Plain = AssignConv (pascal (Name f)) (NullTypeField f)"


text \<open>
  Modelled from the spec: the storage types \<^verbatim>\<open>gen.Field.NullType\<close> gives. The method is
  missing from the sources; the spec has a JSON field scanned "into a raw byte buffer" and
  a nillable field that is no time scanned "into a nullable-wrapper storage type", which
  are Go's \<^verbatim>\<open>[]byte\<close> and the types \<^verbatim>\<open>sql.NullString\<close>, \<^verbatim>\<open>sql.NullInt64\<close>, ... of
  database/sql.
\<close>

definition json_NullType :: string where
  "json_NullType = ''[]byte''"

definition is_NullWrapper :: "string \<Rightarrow> bool" where
  "is_NullWrapper ty = (take 8 ty = ''sql.Null'')"

text \<open>
  What Go's typing says of a conversion that succeeds: the destination holds a value of
  its declared type, an integer for an \<^verbatim>\<open>int\<close>, a byte slice for a \<^verbatim>\<open>[]byte\<close>, a wrapper
  with its \<^verbatim>\<open>Valid\<close> flag for a nullable wrapper.
\<close>

definition well_typed :: "runtime \<Rightarrow> bool" where
  "well_typed rt \<longleftrightarrow>
     (\<forall>col v. convertAssign rt ''int'' col = Inr v \<longrightarrow> (\<exists>n. v = IntV n)) \<and>
     (\<forall>col v. convertAssign rt ''[]byte'' col = Inr v \<longrightarrow> (\<exists>b. v = BytesV b)) \<and>
     (\<forall>ty col v. is_NullWrapper ty \<and> convertAssign rt ty col = Inr v \<longrightarrow>
        (\<exists>valid payload. v = NullV valid payload))"



section \<open>Sample inputs\<close>

text \<open>
  Concrete inputs on which the theorems are tried: an entity \<^verbatim>\<open>User\<close> with a
  plain field, a nillable field and a JSON field, a nillable time field, a stand-in for
  \<^verbatim>\<open>pascal\<close> (the first letter in upper case), a conversion that stores an integer
  into an \<^verbatim>\<open>int\<close>, bytes into a \<^verbatim>\<open>[]byte\<close>, and anything into a nullable wrapper (NULL,
  written \<open>OtherV ''NULL''\<close>, as the wrapper that is not valid), and a JSON decoder that
  accepts the empty object only.
\<close>

definition sample_pascal :: "string \<Rightarrow> string" where
  "sample_pascal s =
     (case s of
        [] \<Rightarrow> []
      | c # cs \<Rightarrow>
          (if 97 \<le> (of_char c :: nat) \<and> (of_char c :: nat) \<le> 122
           then char_of ((of_char c :: nat) - 32) else c) # cs)"

definition sample_convertAssign :: "string \<Rightarrow> val \<Rightarrow> string + val" where
  "sample_convertAssign ty col =
     (if ty = ''int'' then (case col of IntV n \<Rightarrow> Inr col | _ \<Rightarrow> Inl ''unsupported Scan'')
      else if ty = ''[]byte'' then (case col of BytesV b \<Rightarrow> Inr col | _ \<Rightarrow> Inl ''unsupported Scan'')
      else if col = OtherV ''NULL'' then Inr (NullV False (OtherV ''''))
      else Inr (NullV True col))"

definition sample_Unmarshal :: "string \<Rightarrow> string \<Rightarrow> val option \<Rightarrow> val option \<times> string option" where
  "sample_Unmarshal F data old =
     (if data = ''{}'' then (Some (OtherV ''{}''), None)
      else (old, Some ''invalid character''))"

definition sample_runtime :: runtime where
  "sample_runtime = \<lparr> convertAssign = sample_convertAssign, json_Unmarshal = sample_Unmarshal \<rparr>"

definition id_int :: Field where
  "id_int = \<lparr> Name = ''id'', Type = ''int'', NullType = ''sql.NullInt64'', IsJSON = False,
      Nillable = False, IsTime = False, IsString = False, NullTypeField = null_payload \<rparr>"

definition id_string :: Field where
  "id_string = \<lparr> Name = ''id'', Type = ''string'', NullType = ''sql.NullString'', IsJSON = False,
      Nillable = False, IsTime = False, IsString = True, NullTypeField = null_payload \<rparr>"

definition field_name :: Field where
  "field_name = \<lparr> Name = ''name'', Type = ''string'', NullType = ''sql.NullString'', IsJSON = False,
      Nillable = False, IsTime = False, IsString = True, NullTypeField = null_payload \<rparr>"

definition field_nick :: Field where
  "field_nick = \<lparr> Name = ''nick'', Type = ''string'', NullType = ''sql.NullString'', IsJSON = False,
      Nillable = True, IsTime = False, IsString = True, NullTypeField = null_payload \<rparr>"

definition field_meta :: Field where
  "field_meta = \<lparr> Name = ''meta'', Type = ''map[string]string'', NullType = ''[]byte'', IsJSON = True,
      Nillable = False, IsTime = False, IsString = False, NullTypeField = (\<lambda>v. v) \<rparr>"

definition field_seen :: Field where
  "field_seen = \<lparr> Name = ''seen'', Type = ''time.Time'', NullType = ''sql.NullTime'', IsJSON = False,
      Nillable = True, IsTime = True, IsString = False, NullTypeField = null_payload \<rparr>"

definition sample_User :: gen_Type where
  "sample_User = \<lparr> TypeName = ''User'', Receiver = ''u'', ID = id_int,
      Fields = [field_name, field_nick, field_meta] \<rparr>"

text \<open>
  Two rows of the cursor for \<^verbatim>\<open>User\<close>, the second with a JSON column that does not
  parse, the local struct after \<^verbatim>\<open>rows.Scan\<close> of each, and the record the second row
  leaves behind.
\<close>

definition row_full :: "val list" where
  "row_full = [IntV 7, StrV ''al'', OtherV ''NULL'', BytesV ''{}'']"

definition row_bad_json :: "val list" where
  "row_bad_json = [IntV 8, StrV ''bo'', StrV ''bobby'', BytesV ''{b'']"

definition scanned_full :: struct where
  "scanned_full = [''ID'' \<mapsto> IntV 7, ''Name'' \<mapsto> NullV True (StrV ''al''),
                   ''Nick'' \<mapsto> NullV False (OtherV ''''), ''Meta'' \<mapsto> BytesV ''{}'']"

definition scanned_bad_json :: struct where
  "scanned_bad_json = [''ID'' \<mapsto> IntV 8, ''Name'' \<mapsto> NullV True (StrV ''bo''),
                   ''Nick'' \<mapsto> NullV True (StrV ''bobby''), ''Meta'' \<mapsto> BytesV ''{b'']"

text \<open>The same entity with a string identifier.\<close>

definition sample_User_string :: gen_Type where
  "sample_User_string = sample_User \<lparr> ID := id_string \<rparr>"

definition decoded_bad_json :: struct where
  "decoded_bad_json = [''ID'' \<mapsto> IntV 8, ''Name'' \<mapsto> StrV ''bo'', ''Nick'' \<mapsto> PtrV (StrV ''bobby'')]"

text \<open>
  Two more rows for \<^verbatim>\<open>User\<close>, one with an empty JSON column and one with the
  identifier 42, and the local struct after \<^verbatim>\<open>rows.Scan\<close> of each.
\<close>

definition row_empty_json :: "val list" where
  "row_empty_json = [IntV 9, StrV ''cy'', OtherV ''NULL'', BytesV []]"

definition scanned_empty_json :: struct where
  "scanned_empty_json = [''ID'' \<mapsto> IntV 9, ''Name'' \<mapsto> NullV True (StrV ''cy''),
                   ''Nick'' \<mapsto> NullV False (OtherV []), ''Meta'' \<mapsto> BytesV []]"

definition row_42 :: "val list" where
  "row_42 = [IntV 42, StrV ''al'', OtherV ''NULL'', BytesV ''{}'']"

definition scanned_42 :: struct where
  "scanned_42 = [''ID'' \<mapsto> IntV 42, ''Name'' \<mapsto> NullV True (StrV ''al''),
                   ''Nick'' \<mapsto> NullV False (OtherV []), ''Meta'' \<mapsto> BytesV ''{}'']"

text \<open>
  An entity \<^verbatim>\<open>Pet\<close> with a nillable field of Go type \<^verbatim>\<open>int8\<close>. The one nullable wrapper
  of database/sql that such a column scans into is \<^verbatim>\<open>sql.NullInt64\<close>, whose payload is
  an \<^verbatim>\<open>int64\<close>; the statement \<^verbatim>\<open>*u.Age = ...\<close> of the template assigns to an \<^verbatim>\<open>int8\<close>, so
  that the expression of \<^verbatim>\<open>NullTypeField\<close> is the conversion \<^verbatim>\<open>int8(scan.Age.Int64)\<close>,
  which in Go keeps the low eight bits (\<open>int8_of\<close>). The row holds 300 in the field's
  column.
\<close>

definition int8_of :: "val \<Rightarrow> val" where
  "int8_of v = (case null_payload v of IntV n \<Rightarrow> IntV ((n + 128) mod 256 - 128) | w \<Rightarrow> w)"

definition field_age :: Field where
  "field_age = \<lparr> Name = ''age'', Type = ''int8'', NullType = ''sql.NullInt64'', IsJSON = False,
      Nillable = True, IsTime = False, IsString = False, NullTypeField = int8_of \<rparr>"

definition sample_Pet :: gen_Type where
  "sample_Pet = \<lparr> TypeName = ''Pet'', Receiver = ''pe'', ID = id_int, Fields = [field_age] \<rparr>"

definition row_age :: "val list" where
  "row_age = [IntV 1, IntV 300]"











section \<open>Properties of the command line\<close>

subsection \<open>The init command's validator\<close>

lemma init_Args_upper_prefix:
  "list_all begins_upper pre \<Longrightarrow> init_Args (pre @ rest) = init_Args rest"
  by (induction pre) (auto simp: begins_upper_def split: list.splits)

lemma init_Args_nonempty:
  "list_all (\<lambda>n. n \<noteq> []) names \<Longrightarrow>
   init_Args names =
     (if list_all begins_upper names then Inr None
      else Inr (Some ''schema names must begin with uppercase''))"
  by (induction names) (auto simp: begins_upper_def split: list.splits)

text \<open>
  C10, as the claim states it, fails: a list that contains the empty string does not
  always panic. When a name before the empty one begins with no upper case letter, the
  loop returns the validation error first.
\<close>

theorem init_Args_empty_name_counterexample:
  "[] \<in> set [''user'', ''''] \<and>
   init_Args [''user'', ''''] = Inr (Some ''schema names must begin with uppercase'')"
  by (simp add: IsUpper_def)

lemma init_Args_reject:
  "list_all begins_upper pre \<Longrightarrow> n \<noteq> [] \<Longrightarrow> \<not> begins_upper n \<Longrightarrow>
   init_Args (pre @ n # post) = Inr (Some ''schema names must begin with uppercase'')"
  by (simp add: init_Args_upper_prefix) (auto simp: begins_upper_def split: list.splits)

lemma init_Args_all_upper: "list_all begins_upper names \<Longrightarrow> init_Args names = Inr None"
  using init_Args_upper_prefix [of names "[]"] by simp

lemma init_Args_panic_shape:
  "init_Args names = Inl IndexOutOfRange \<Longrightarrow>
   \<exists>pre post. names = pre @ [] # post \<and> list_all begins_upper pre"
proof (induction names)
  case Nil
  then show ?case by simp
next
  case (Cons name names)
  show ?case
  proof (cases name)
    case Nil
    then have "name # names = [] @ [] # names \<and> list_all begins_upper []" by simp
    then show ?thesis by blast
  next
    case (Cons c cs)
    with Cons.prems have up: "IsUpper c" and rest: "init_Args names = Inl IndexOutOfRange"
      by (auto split: if_splits)
    from Cons.IH [OF rest] obtain pre post where
      "names = pre @ [] # post" "list_all begins_upper pre" by blast
    with up Cons have "name # names = (name # pre) @ [] # post \<and> list_all begins_upper (name # pre)"
      by (simp add: begins_upper_def)
    then show ?thesis by blast
  qed
qed

text \<open>
  C10, amended: the validator reads the first byte of each name without checking that
  the name is non-empty. It panics (index out of range) exactly when it reaches an empty
  name, that is when every name before the first empty one begins with an upper case
  letter; a name before it that is not empty and does not begin with an upper case
  letter makes it return the validation error first, whatever follows; and when every
  name begins with an upper case letter it returns nil. So for a list of non-empty names
  it returns the error exactly when some name's first byte is not an upper case letter.
\<close>

theorem init_Args_panics_or_validates:
  "(list_all begins_upper pre \<longrightarrow> init_Args (pre @ [] # post) = Inl IndexOutOfRange) \<and>
   (list_all begins_upper pre \<and> n \<noteq> [] \<and> \<not> begins_upper n \<longrightarrow>
      init_Args (pre @ n # post) = Inr (Some ''schema names must begin with uppercase'')) \<and>
   (list_all begins_upper names \<longrightarrow> init_Args names = Inr None) \<and>
   (init_Args names = Inl IndexOutOfRange
      \<longleftrightarrow> (\<exists>pre post. names = pre @ [] # post \<and> list_all begins_upper pre)) \<and>
   (list_all (\<lambda>n. n \<noteq> []) names \<longrightarrow>
      (init_Args names = Inr (Some ''schema names must begin with uppercase'')
         \<longleftrightarrow> \<not> list_all begins_upper names) \<and>
      (init_Args names = Inr None \<longleftrightarrow> list_all begins_upper names))"
proof (intro conjI impI)
  assume "list_all begins_upper pre"
  then show "init_Args (pre @ [] # post) = Inl IndexOutOfRange"
    by (simp add: init_Args_upper_prefix)
next
  assume "list_all begins_upper pre \<and> n \<noteq> [] \<and> \<not> begins_upper n"
  then show "init_Args (pre @ n # post) = Inr (Some ''schema names must begin with uppercase'')"
    by (simp add: init_Args_reject)
next
  assume "list_all begins_upper names"
  then show "init_Args names = Inr None" by (rule init_Args_all_upper)
next
  show "init_Args names = Inl IndexOutOfRange
      \<longleftrightarrow> (\<exists>pre post. names = pre @ [] # post \<and> list_all begins_upper pre)"
  proof
    assume "init_Args names = Inl IndexOutOfRange"
    then show "\<exists>pre post. names = pre @ [] # post \<and> list_all begins_upper pre"
      by (rule init_Args_panic_shape)
  next
    assume "\<exists>pre post. names = pre @ [] # post \<and> list_all begins_upper pre"
    then show "init_Args names = Inl IndexOutOfRange"
      by (auto simp: init_Args_upper_prefix)
  qed
next
  assume ne: "list_all (\<lambda>n. n \<noteq> []) names"
  show "init_Args names = Inr (Some ''schema names must begin with uppercase'')
          \<longleftrightarrow> \<not> list_all begins_upper names"
    by (simp add: init_Args_nonempty [OF ne])
next
  assume ne: "list_all (\<lambda>n. n \<noteq> []) names"
  show "init_Args names = Inr None \<longleftrightarrow> list_all begins_upper names"
    by (simp add: init_Args_nonempty [OF ne])
qed

text \<open>C10, amended, on sample lists of names.\<close>

theorem init_Args_panics_or_validates_witness:
  "list_all begins_upper [''User''] \<and>
   init_Args ([''User''] @ [] # [''Group'']) = Inl IndexOutOfRange \<and>
   ''user'' \<noteq> [] \<and> \<not> begins_upper ''user'' \<and>
   init_Args ([''User''] @ ''user'' # [[]]) = Inr (Some ''schema names must begin with uppercase'') \<and>
   init_Args [''User''] = Inr None \<and>
   init_Args [''User'', ''user'', []] \<noteq> Inl IndexOutOfRange \<and>
   list_all (\<lambda>n. n \<noteq> []) [''User'', ''group''] \<and>
   \<not> list_all begins_upper [''User'', ''group''] \<and>
   init_Args [''User'', ''group''] = Inr (Some ''schema names must begin with uppercase'')"
proof -
  have a: "list_all begins_upper [''User'']"
    by (simp add: begins_upper_def IsUpper_def)
  have b: "list_all (\<lambda>n. n \<noteq> []) [''User'', ''group'']"
    by simp
  have c: "\<not> list_all begins_upper [''User'', ''group'']"
    by (simp add: begins_upper_def IsUpper_def)
  have d: "''user'' \<noteq> []" "\<not> begins_upper ''user''"
    by (simp_all add: begins_upper_def IsUpper_def)
  from init_Args_panics_or_validates [where pre = "[''User'']" and post = "[''Group'']"
      and names = "[''User'', ''group'']"] a b c
  have r1: "init_Args ([''User''] @ [] # [''Group'']) = Inl IndexOutOfRange \<and>
    init_Args [''User'', ''group''] = Inr (Some ''schema names must begin with uppercase'')"
    by blast
  from init_Args_panics_or_validates [where pre = "[''User'']" and post = "[[]]"
      and n = "''user''" and names = "[''User'']"] a d
  have r2: "init_Args ([''User''] @ ''user'' # [[]]) = Inr (Some ''schema names must begin with uppercase'') \<and>
    init_Args [''User''] = Inr None"
    by blast
  from r2 have r3: "init_Args [''User'', ''user'', []] \<noteq> Inl IndexOutOfRange" by simp
  from a b c d r1 r2 r3 show ?thesis by blast
qed

subsection \<open>The identifier type\<close>

text \<open>
  C7: the setter accepts exactly the names of the five identifier kinds (two signed,
  two unsigned, string) and stores the kind named; every other string is rejected with
  the error "invalid type" and the stored kind is left as it was. The rejection comes
  while the flags are parsed, so the generate command has made no call that loads the
  schema. Without the flag the kind is the default, \<open>TypeInt\<close>. The names of the kinds
  are taken to be distinct.
\<close>

theorem idType_Set_closed_set:
  assumes "inj str"
  shows "idType_Set str t (str k) = (k, None) \<and>
         generate str (Some (str k)) path = (None, [LoadGraph path k]) \<and>
         (s \<notin> range str \<longrightarrow>
            idType_Set str t s = (t, Some ''invalid type'') \<and>
            generate str (Some s) path = (Some ''invalid type'', [])) \<and>
         generate str None path = (None, [LoadGraph path TypeInt])"
proof -
  have set_ok: "idType_Set str t' (str k) = (k, None)" for t'
    using assms by (cases k) (auto simp: idType_Set_def inj_eq)
  have set_bad: "idType_Set str t' s = (t', Some ''invalid type'')" if "s \<notin> range str" for t'
    using that by (auto simp: idType_Set_def)
  have gen_bad: "generate str (Some s) path = (Some ''invalid type'', [])" if "s \<notin> range str"
    using set_bad [OF that] by (simp add: generate_def)
  have gen_ok: "generate str (Some (str k)) path = (None, [LoadGraph path k])"
    using set_ok by (simp add: generate_def)
  have gen_default: "generate str None path = (None, [LoadGraph path TypeInt])"
    by (simp add: generate_def)
  from set_ok set_bad gen_bad gen_ok gen_default show ?thesis by blast
qed

lemma inj_kind_names: "inj kind_names"
proof (rule injI)
  fix a b assume "kind_names a = kind_names b"
  then show "a = b" by (cases a; cases b) simp_all
qed

lemma bool_not_kind_name: "''bool'' \<notin> range kind_names"
proof
  assume "''bool'' \<in> range kind_names"
  then obtain k where "''bool'' = kind_names k" by blast
  then show False by (cases k) simp_all
qed

theorem idType_Set_closed_set_witness:
  "idType_Set kind_names TypeInt (kind_names TypeUint64) = (TypeUint64, None) \<and>
   generate kind_names (Some (kind_names TypeUint64)) ''./ent/schema''
     = (None, [LoadGraph ''./ent/schema'' TypeUint64]) \<and>
   idType_Set kind_names TypeInt ''bool'' = (TypeInt, Some ''invalid type'') \<and>
   generate kind_names (Some ''bool'') ''./ent/schema'' = (Some ''invalid type'', []) \<and>
   generate kind_names None ''./ent/schema'' = (None, [LoadGraph ''./ent/schema'' TypeInt])"
  using idType_Set_closed_set [OF inj_kind_names, of TypeInt TypeUint64 "''./ent/schema''" "''bool''"]
    bool_not_kind_name
  by blast

subsection \<open>Loading external templates\<close>



lemma tmpl_AddParseTree [simp]: "tmpl (AddParseTree t nt) = associate (tmpl t) (fst nt) (snd nt)"
  by (simp add: AddParseTree_def)

































section \<open>Properties of the decode templates\<close>

subsection \<open>Facts about the sample inputs\<close>

lemma sample_pascal_names:
  "sample_pascal ''name'' = ''Name''" "sample_pascal ''nick'' = ''Nick''"
  "sample_pascal ''meta'' = ''Meta''" "sample_pascal ''seen'' = ''Seen''"
  by code_simp+

lemmas sample_defs = sample_User_def sample_runtime_def sample_pascal_names sample_convertAssign_def
  sample_Unmarshal_def id_int_def id_string_def field_name_def field_nick_def field_meta_def
  field_seen_def row_full_def row_bad_json_def scanned_full_def scanned_bad_json_def

lemma sample_scan_full:
  "Scan sample_runtime (struct_fields (decode_one sample_pascal sample_User))
      (scan_args (decode_one sample_pascal sample_User)) row_full = Inr scanned_full"
  by (simp add: Scan_def decode_one_def id_struct_field_def sample_defs)

lemma sample_scan_bad_json:
  "Scan sample_runtime (struct_fields (decode_one sample_pascal sample_User))
      (scan_args (decode_one sample_pascal sample_User)) row_bad_json = Inr scanned_bad_json"
  by (simp add: Scan_def decode_one_def id_struct_field_def sample_defs)

lemma sample_distinct: "distinct (scan_args (decode_one sample_pascal sample_User))"
  by (simp add: decode_one_def sample_defs)

lemmas emit_defs = decode_one_def emit_id_def emit_field_def id_struct_field_def

lemma sample_FromRows_full:
  "snd (FromRows sample_runtime (decode_one sample_pascal sample_User) row_full Map.empty) = None"
  unfolding FromRows_def sample_scan_full
  by (simp add: emit_defs sample_defs)

lemma sample_FromRows_bad_json:
  "snd (FromRows sample_runtime (decode_one sample_pascal sample_User) row_bad_json Map.empty)
     = Some (Error ''unmarshal field meta: invalid character'')"
  unfolding FromRows_def sample_scan_bad_json
  by (simp add: emit_defs sample_defs)

subsection \<open>The scan call\<close>

lemma convert_columns_keeps:
  "convert_columns rt decl i zs sc0 = Inr sc \<Longrightarrow> F \<notin> fst ` set zs \<Longrightarrow> sc F = sc0 F"
proof (induction zs arbitrary: i sc0)
  case Nil
  then show ?case by simp
next
  case (Cons z zs)
  obtain G col where z: "z = (G, col)" by (cases z)
  from Cons.prems z obtain ty v where
    "convert_columns rt decl (Suc i) zs (sc0(G \<mapsto> v)) = Inr sc"
    by (auto split: option.splits sum.splits)
  from Cons.IH [OF this] Cons.prems(2) z show ?case by auto
qed

lemma convert_columns_cell:
  "convert_columns rt decl i zs sc0 = Inr sc \<Longrightarrow> distinct (map fst zs) \<Longrightarrow> (F, col) \<in> set zs \<Longrightarrow>
   \<exists>ty. map_of decl F = Some ty \<and> map_option Inr (sc F) = Some (convertAssign rt ty col)"
proof (induction zs arbitrary: i sc0)
  case Nil
  then show ?case by simp
next
  case (Cons z zs)
  obtain G c where z: "z = (G, c)" by (cases z)
  from Cons.prems(1) z obtain ty v where
    ty: "map_of decl G = Some ty" and v: "convertAssign rt ty c = Inr v" and
    rest: "convert_columns rt decl (Suc i) zs (sc0(G \<mapsto> v)) = Inr sc"
    by (auto split: option.splits sum.splits)
  show ?case
  proof (cases "(F, col) = (G, c)")
    case True
    with Cons.prems(2) z have "G \<notin> fst ` set zs" by auto
    from convert_columns_keeps [OF rest this] have "sc G = Some v" by simp
    with True ty v show ?thesis by auto
  next
    case False
    with Cons.prems(3) z have "(F, col) \<in> set zs" by auto
    moreover from Cons.prems(2) have "distinct (map fst zs)" by simp
    ultimately show ?thesis using Cons.IH [OF rest] by blast
  qed
qed

lemma Scan_cell:
  assumes "Scan rt decl dest cols = Inr sc" "distinct dest" "i < length dest"
  shows "length cols = length dest \<and>
    (\<exists>ty. map_of decl (dest ! i) = Some ty \<and>
        map_option Inr (sc (dest ! i)) = Some (convertAssign rt ty (cols ! i)))"
proof -
  from assms(1) have len: "length dest = length cols"
    and cc: "convert_columns rt decl 0 (zip dest cols) Map.empty = Inr sc"
    by (auto simp: Scan_def split: if_splits)
  have "distinct (map fst (zip dest cols))" using assms(2) len by simp
  moreover have "(dest ! i, cols ! i) \<in> set (zip dest cols)"
    using assms(3) len by (metis in_set_zip fst_conv snd_conv)
  ultimately show ?thesis using convert_columns_cell [OF cc] len by auto
qed

lemma map_of_nth:
  "distinct (map fst decl) \<Longrightarrow> i < length decl \<Longrightarrow> map_of decl (map fst decl ! i) = Some (snd (decl ! i))"
  by (metis map_of_eq_Some_iff nth_map nth_mem prod.collapse)

lemma decode_one_args: "scan_args (decode_one pascal T) = map fst (struct_fields (decode_one pascal T))"
  by (simp add: decode_one_def id_struct_field_def comp_def)



subsection \<open>The statements of the fields\<close>

text \<open>
  C6: the statement the template emits for a field is the one of the strategy selected
  in the order of precedence JSON, nillable time, nillable other, plain: exactly one
  strategy is selected, JSON whatever the other flags are, otherwise by \<^verbatim>\<open>Nillable\<close>
  and then \<^verbatim>\<open>IsTime\<close>. The statements of a nillable time and of a plain field have no
  validity branch: whatever the cell holds, the field points to the cell, or holds the
  converted cell.
\<close>

theorem decode_strategy_precedence:
  "(\<exists>s. select_strategy f = Some s \<and> emit_field pascal f = strategy_stmt pascal f s) \<and>
   (select_strategy f = Some JSON \<longleftrightarrow> IsJSON f) \<and>
   (select_strategy f = Some NillableTime \<longleftrightarrow> \<not> IsJSON f \<and> Nillable f \<and> IsTime f) \<and>
   (select_strategy f = Some NillableOther \<longleftrightarrow> \<not> IsJSON f \<and> Nillable f \<and> \<not> IsTime f) \<and>
   (select_strategy f = Some Plain \<longleftrightarrow> \<not> IsJSON f \<and> \<not> Nillable f) \<and>
   (select_strategy f = Some NillableTime \<and> sc (pascal (Name f)) = Some v \<longrightarrow>
      exec_stmt rt sc (emit_field pascal f) recv = (recv(pascal (Name f) \<mapsto> PtrV v), None)) \<and>
   (select_strategy f = Some Plain \<and> sc (pascal (Name f)) = Some v \<longrightarrow>
      exec_stmt rt sc (emit_field pascal f) recv = (recv(pascal (Name f) \<mapsto> NullTypeField f v), None))"
  by (auto simp: select_strategy_def precedence_def emit_field_def)

text \<open>C6, on the sample inputs.\<close>

theorem decode_strategy_precedence_witness:
  "select_strategy field_seen = Some NillableTime \<and>
   [''Seen'' \<mapsto> NullV False (OtherV [])] (sample_pascal (Name field_seen)) = Some (NullV False (OtherV [])) \<and>
   exec_stmt sample_runtime [''Seen'' \<mapsto> NullV False (OtherV [])] (emit_field sample_pascal field_seen) Map.empty
     = (Map.empty(sample_pascal (Name field_seen) \<mapsto> PtrV (NullV False (OtherV []))), None) \<and>
   select_strategy field_name = Some Plain \<and>
   scanned_full (sample_pascal (Name field_name)) = Some (NullV True (StrV ''al'')) \<and>
   exec_stmt sample_runtime scanned_full (emit_field sample_pascal field_name) Map.empty
     = (Map.empty(sample_pascal (Name field_name) \<mapsto> NullTypeField field_name (NullV True (StrV ''al''))), None)"
proof -
  have s1: "select_strategy field_seen = Some NillableTime"
    by (simp add: select_strategy_def precedence_def sample_defs)
  have s2: "select_strategy field_name = Some Plain"
    by (simp add: select_strategy_def precedence_def sample_defs)
  have c1: "[''Seen'' \<mapsto> NullV False (OtherV [])] (sample_pascal (Name field_seen)) = Some (NullV False (OtherV []))"
    by (simp add: sample_defs)
  have c2: "scanned_full (sample_pascal (Name field_name)) = Some (NullV True (StrV ''al''))"
    by (simp add: sample_defs)
  from decode_strategy_precedence [where f = field_seen and pascal = sample_pascal
      and sc = "[''Seen'' \<mapsto> NullV False (OtherV [])]" and v = "NullV False (OtherV [])"
      and rt = sample_runtime and recv = Map.empty] s1 c1
  have a: "exec_stmt sample_runtime [''Seen'' \<mapsto> NullV False (OtherV [])] (emit_field sample_pascal field_seen) Map.empty
     = (Map.empty(sample_pascal (Name field_seen) \<mapsto> PtrV (NullV False (OtherV []))), None)"
    by blast
  from decode_strategy_precedence [where f = field_name and pascal = sample_pascal
      and sc = scanned_full and v = "NullV True (StrV ''al'')"
      and rt = sample_runtime and recv = Map.empty] s2 c2
  have b: "exec_stmt sample_runtime scanned_full (emit_field sample_pascal field_name) Map.empty
     = (Map.empty(sample_pascal (Name field_name) \<mapsto> NullTypeField field_name (NullV True (StrV ''al''))), None)"
    by blast
  from s1 s2 c1 c2 a b show ?thesis by blast
qed

subsection \<open>The identifier\<close>




subsection \<open>Failure in the middle of a record\<close>

lemma exec_append:
  "exec rt sc (xs @ ys) recv =
     (case exec rt sc xs recv of
        (recv', Some err) \<Rightarrow> (recv', Some err)
      | (recv', None) \<Rightarrow> exec rt sc ys recv')"
  by (induction xs arbitrary: recv) (auto split: prod.splits option.splits)

lemma exec_stmt_field_keys:
  "exec_stmt rt sc (emit_field pascal f) recv = (recv', e) \<Longrightarrow> k \<noteq> pascal (Name f) \<Longrightarrow> recv' k = recv k"
  by (auto simp: emit_field_def split: if_splits option.splits val.splits prod.splits)

lemma exec_fields_keys:
  "exec rt sc (map (emit_field pascal) fs) recv = (recv', e) \<Longrightarrow>
   k \<notin> set (map (\<lambda>f. pascal (Name f)) fs) \<Longrightarrow> recv' k = recv k"
proof (induction fs arbitrary: recv)
  case Nil
  then show ?case by simp
next
  case (Cons f fs)
  obtain r1 e1 where s: "exec_stmt rt sc (emit_field pascal f) recv = (r1, e1)"
    by (cases "exec_stmt rt sc (emit_field pascal f) recv")
  from Cons.prems(2) have k: "k \<noteq> pascal (Name f)" "k \<notin> set (map (\<lambda>f. pascal (Name f)) fs)"
    by auto
  from exec_stmt_field_keys [OF s k(1)] have r1: "r1 k = recv k" .
  show ?case
  proof (cases e1)
    case None
    with Cons.prems(1) s have "exec rt sc (map (emit_field pascal) fs) r1 = (recv', e)" by simp
    from Cons.IH [OF this k(2)] r1 show ?thesis by simp
  next
    case (Some err)
    with Cons.prems(1) s have "recv' = r1" by simp
    with r1 show ?thesis by simp
  qed
qed

text \<open>
  C9: the single-record decode is not atomic. When the statements of the identifier and
  of the fields before a JSON field have run, and the JSON field's buffer does not parse,
  the method returns the error, and the record the caller holds is the one those
  statements left (only the JSON field is as \<^verbatim>\<open>json.Unmarshal\<close> left it): the
  identifier assigned is still there when no field is named as it is; nothing is rolled
  back.
\<close>

theorem FromRows_not_atomic:
  assumes fields: "Fields T = pre @ f # post"
    and json: "IsJSON f"
    and scan: "Scan rt (struct_fields (decode_one pascal T)) (scan_args (decode_one pascal T)) cols = Inr sc"
    and ident: "exec_stmt rt sc (emit_id T) recv = (recv0, None)"
    and before: "exec rt sc (map (emit_field pascal) pre) recv0 = (recv1, None)"
    and cell: "sc (pascal (Name f)) = Some (BytesV b)" "b \<noteq> []"
    and fails: "json_Unmarshal rt (pascal (Name f)) b (recv1 (pascal (Name f))) = (d, Some msg)"
  shows "FromRows rt (decode_one pascal T) cols recv
           = (recv1(pascal (Name f) := d), Some (Error (''unmarshal field '' @ Name f @ '': '' @ msg))) \<and>
         (''ID'' \<notin> set (map (\<lambda>g. pascal (Name g)) (pre @ [f])) \<longrightarrow>
            (recv1(pascal (Name f) := d)) ''ID'' = recv0 ''ID'' \<and> recv0 ''ID'' \<noteq> None)"
proof
  have "exec rt sc (body (decode_one pascal T)) recv
      = exec rt sc (emit_field pascal f # map (emit_field pascal) post) recv1"
    using fields ident before by (simp add: decode_one_def exec_append)
  also have "\<dots> = (recv1(pascal (Name f) := d), Some (Error (''unmarshal field '' @ Name f @ '': '' @ msg)))"
    using json cell fails by (simp add: emit_field_def)
  finally show "FromRows rt (decode_one pascal T) cols recv
           = (recv1(pascal (Name f) := d), Some (Error (''unmarshal field '' @ Name f @ '': '' @ msg)))"
    using scan by (simp add: FromRows_def)
  show "''ID'' \<notin> set (map (\<lambda>g. pascal (Name g)) (pre @ [f])) \<longrightarrow>
            (recv1(pascal (Name f) := d)) ''ID'' = recv0 ''ID'' \<and> recv0 ''ID'' \<noteq> None"
  proof
    assume n: "''ID'' \<notin> set (map (\<lambda>g. pascal (Name g)) (pre @ [f]))"
    then have "''ID'' \<notin> set (map (\<lambda>g. pascal (Name g)) pre)" "''ID'' \<noteq> pascal (Name f)" by auto
    with exec_fields_keys [OF before] have "(recv1(pascal (Name f) := d)) ''ID'' = recv0 ''ID''"
      by simp
    moreover from ident have "recv0 ''ID'' \<noteq> None"
      by (auto simp: emit_id_def split: if_splits option.splits val.splits)
    ultimately show "(recv1(pascal (Name f) := d)) ''ID'' = recv0 ''ID'' \<and> recv0 ''ID'' \<noteq> None" by simp
  qed
qed

text \<open>C9, on the sample inputs.\<close>

theorem FromRows_not_atomic_witness:
  "FromRows sample_runtime (decode_one sample_pascal sample_User) row_bad_json Map.empty
     = (decoded_bad_json(sample_pascal (Name field_meta) := None),
        Some (Error (''unmarshal field '' @ Name field_meta @ '': '' @ ''invalid character''))) \<and>
   (decoded_bad_json(sample_pascal (Name field_meta) := None)) ''ID'' = [''ID'' \<mapsto> IntV 8] ''ID'' \<and>
   [''ID'' \<mapsto> IntV 8] ''ID'' \<noteq> None \<and>
   decoded_bad_json ''Name'' = Some (StrV ''bo'') \<and>
   decoded_bad_json ''Nick'' = Some (PtrV (StrV ''bobby''))"
proof -
  have fields: "Fields sample_User = [field_name, field_nick] @ field_meta # []"
    by (simp add: sample_User_def)
  have json: "IsJSON field_meta" by (simp add: sample_defs)
  have ident: "exec_stmt sample_runtime scanned_bad_json (emit_id sample_User) Map.empty
      = ([''ID'' \<mapsto> IntV 8], None)"
    by (simp add: emit_defs sample_defs)
  have before: "exec sample_runtime scanned_bad_json (map (emit_field sample_pascal) [field_name, field_nick])
      [''ID'' \<mapsto> IntV 8] = (decoded_bad_json, None)"
    by (simp add: emit_defs sample_defs decoded_bad_json_def)
  have cell: "scanned_bad_json (sample_pascal (Name field_meta)) = Some (BytesV ''{b'')" "''{b'' \<noteq> []"
    by (simp_all add: sample_defs)
  have fails: "json_Unmarshal sample_runtime (sample_pascal (Name field_meta)) ''{b''
      (decoded_bad_json (sample_pascal (Name field_meta))) = (None, Some ''invalid character'')"
    by (simp add: sample_defs decoded_bad_json_def)
  have noid: "''ID'' \<notin> set (map (\<lambda>g. sample_pascal (Name g)) ([field_name, field_nick] @ [field_meta]))"
    by (simp add: sample_defs)
  have rest: "decoded_bad_json ''Name'' = Some (StrV ''bo'')"
    "decoded_bad_json ''Nick'' = Some (PtrV (StrV ''bobby''))"
    by (simp_all add: decoded_bad_json_def)
  from FromRows_not_atomic [where T = sample_User and pre = "[field_name, field_nick]" and f = field_meta
      and post = "[]" and rt = sample_runtime and pascal = sample_pascal and cols = row_bad_json
      and sc = scanned_bad_json and recv = Map.empty and ?recv0.0 = "[''ID'' \<mapsto> IntV 8]"
      and ?recv1.0 = decoded_bad_json and b = "''{b''" and d = None and msg = "''invalid character''",
      OF fields json sample_scan_bad_json ident before cell fails] noid rest
  show ?thesis by blast
qed

subsection \<open>The collection decode\<close>

lemma FromRows_many_ok:
  "list_all (\<lambda>cols. snd (FromRows rt fn cols Map.empty) = None) rows \<Longrightarrow>
   FromRows_many rt fn (rows @ rest) recv
     = FromRows_many rt fn rest (recv @ map (\<lambda>cols. fst (FromRows rt fn cols Map.empty)) rows)"
  by (induction rows arbitrary: recv) (auto split: prod.splits option.splits)

text \<open>
  C3: the collection decode runs the single-record decode on each row in the order of
  the cursor, each on a new record, and appends the record to the destination. When
  every row decodes it ends with no error after the last row; at the first row that
  fails it returns that row's error at once, the destination holding the records of the
  rows before it and none of a later row.
\<close>

theorem FromRows_many_appends_or_aborts:
  "(list_all (\<lambda>cols. snd (FromRows rt fn cols Map.empty) = None) rows \<longrightarrow>
      FromRows_many rt fn rows recv
        = (recv @ map (\<lambda>cols. fst (FromRows rt fn cols Map.empty)) rows, None)) \<and>
   (list_all (\<lambda>cols. snd (FromRows rt fn cols Map.empty) = None) rows \<and>
    snd (FromRows rt fn bad Map.empty) = Some err \<longrightarrow>
      FromRows_many rt fn (rows @ bad # rest) recv
        = (recv @ map (\<lambda>cols. fst (FromRows rt fn cols Map.empty)) rows, Some err))"
proof (intro conjI impI)
  assume "list_all (\<lambda>cols. snd (FromRows rt fn cols Map.empty) = None) rows"
  from FromRows_many_ok [OF this, of "[]" recv]
  show "FromRows_many rt fn rows recv
        = (recv @ map (\<lambda>cols. fst (FromRows rt fn cols Map.empty)) rows, None)"
    by simp
next
  assume a: "list_all (\<lambda>cols. snd (FromRows rt fn cols Map.empty) = None) rows \<and>
    snd (FromRows rt fn bad Map.empty) = Some err"
  then have ok: "list_all (\<lambda>cols. snd (FromRows rt fn cols Map.empty) = None) rows"
    and bad: "snd (FromRows rt fn bad Map.empty) = Some err"
    by simp_all
  have stop: "FromRows_many rt fn (bad # rest) r = (r, Some err)" for r
    using bad by (cases "FromRows rt fn bad Map.empty") simp
  show "FromRows_many rt fn (rows @ bad # rest) recv
        = (recv @ map (\<lambda>cols. fst (FromRows rt fn cols Map.empty)) rows, Some err)"
    by (simp only: FromRows_many_ok [OF ok] stop)
qed

text \<open>C3, on the sample inputs.\<close>

theorem FromRows_many_appends_or_aborts_witness:
  "list_all (\<lambda>cols. snd (FromRows sample_runtime (decode_one sample_pascal sample_User) cols Map.empty) = None)
      [row_full, row_full, row_full] \<and>
   snd (FromRows sample_runtime (decode_one sample_pascal sample_User) row_bad_json Map.empty)
     = Some (Error ''unmarshal field meta: invalid character'') \<and>
   FromRows_many sample_runtime (decode_one sample_pascal sample_User)
       ([row_full, row_full, row_full] @ row_bad_json # [row_full]) []
     = ([] @ map (\<lambda>cols. fst (FromRows sample_runtime (decode_one sample_pascal sample_User) cols Map.empty))
               [row_full, row_full, row_full],
        Some (Error ''unmarshal field meta: invalid character'')) \<and>
   FromRows_many sample_runtime (decode_one sample_pascal sample_User) [row_full, row_full, row_full] []
     = ([] @ map (\<lambda>cols. fst (FromRows sample_runtime (decode_one sample_pascal sample_User) cols Map.empty))
               [row_full, row_full, row_full],
        None)"
proof -
  have ok: "list_all (\<lambda>cols. snd (FromRows sample_runtime (decode_one sample_pascal sample_User) cols Map.empty) = None)
      [row_full, row_full, row_full]"
    by (simp add: sample_FromRows_full)
  from FromRows_many_appends_or_aborts [where rt = sample_runtime
      and fn = "decode_one sample_pascal sample_User" and rows = "[row_full, row_full, row_full]"
      and bad = row_bad_json and err = "Error ''unmarshal field meta: invalid character''"
      and rest = "[row_full]" and recv = "[]"]
    ok sample_FromRows_bad_json
  show ?thesis by blast
qed

subsection \<open>A field and the identifier in the whole method\<close>

lemma decode_one_cells:
  assumes dist: "distinct (scan_args (decode_one pascal T))"
    and scan: "Scan rt (struct_fields (decode_one pascal T)) (scan_args (decode_one pascal T)) cols = Inr sc"
  shows "map_option Inr (sc ''ID'') = Some (convertAssign rt (snd (id_struct_field T)) (cols ! 0))"
    and "i < length (Fields T) \<Longrightarrow>
         map_option Inr (sc (pascal (Name (Fields T ! i))))
           = Some (convertAssign rt (NullType (Fields T ! i)) (cols ! Suc i))"
proof -
  let ?fn = "decode_one pascal T"
  let ?decl = "struct_fields ?fn"
  from dist scan have d: "distinct (map fst ?decl)" and s: "Scan rt ?decl (map fst ?decl) cols = Inr sc"
    by (simp_all add: decode_one_args)
  have len: "length ?decl = 1 + length (Fields T)"
    by (simp add: decode_one_def)
  have cell: "map_option Inr (sc (map fst ?decl ! j)) = Some (convertAssign rt (snd (?decl ! j)) (cols ! j))"
    if "j < length ?decl" for j
    using Scan_cell [OF s d, of j] that map_of_nth [OF d that] by auto
  from cell [of 0] show "map_option Inr (sc ''ID'') = Some (convertAssign rt (snd (id_struct_field T)) (cols ! 0))"
    by (simp add: decode_one_def id_struct_field_def)
  assume "i < length (Fields T)"
  then have "Suc i < length ?decl" using len by simp
  from cell [OF this] \<open>i < length (Fields T)\<close> show
    "map_option Inr (sc (pascal (Name (Fields T ! i))))
       = Some (convertAssign rt (NullType (Fields T ! i)) (cols ! Suc i))"
    by (simp add: decode_one_def)
qed

lemma exec_stmt_id_keys:
  "exec_stmt rt sc (emit_id T) recv = (recv', e) \<Longrightarrow> k \<noteq> ''ID'' \<Longrightarrow> recv' k = recv k"
  by (auto simp: emit_id_def split: if_splits option.splits val.splits)

lemma exec_before_keys:
  assumes "exec rt sc (emit_id T # map (emit_field pascal) pre) recv = (recv1, e)"
    and "k \<noteq> ''ID''" and "k \<notin> set (map (\<lambda>g. pascal (Name g)) pre)"
  shows "recv1 k = recv k"
proof -
  obtain r0 e0 where i: "exec_stmt rt sc (emit_id T) recv = (r0, e0)"
    by (cases "exec_stmt rt sc (emit_id T) recv")
  from exec_stmt_id_keys [OF i assms(2)] have r0: "r0 k = recv k" .
  show ?thesis
  proof (cases e0)
    case None
    with assms(1) i have "exec rt sc (map (emit_field pascal) pre) r0 = (recv1, e)" by simp
    from exec_fields_keys [OF this assms(3)] r0 show ?thesis by simp
  next
    case (Some err)
    with assms(1) i have "recv1 = r0" by simp
    with r0 show ?thesis by simp
  qed
qed

text \<open>The method, when the scan succeeds and the statements before a field return no error.\<close>

lemma FromRows_at_field:
  assumes "Fields T = pre @ f # post"
    and "Scan rt (struct_fields (decode_one pascal T)) (scan_args (decode_one pascal T)) cols = Inr sc"
    and "exec rt sc (emit_id T # map (emit_field pascal) pre) recv = (recv1, None)"
  shows "FromRows rt (decode_one pascal T) cols recv =
     (case exec_stmt rt sc (emit_field pascal f) recv1 of
        (r, Some err) \<Rightarrow> (r, Some err)
      | (r, None) \<Rightarrow> exec rt sc (map (emit_field pascal) post) r)"
proof -
  have "body (decode_one pascal T)
      = (emit_id T # map (emit_field pascal) pre) @ emit_field pascal f # map (emit_field pascal) post"
    using assms(1) by (simp add: decode_one_def)
  then have "exec rt sc (body (decode_one pascal T)) recv
      = exec rt sc (emit_field pascal f # map (emit_field pascal) post) recv1"
    using assms(3) by (simp only: exec_append) simp
  with assms(2) show ?thesis by (simp add: FromRows_def)
qed

lemma field_position:
  assumes "Fields T = pre @ f # post"
  shows "struct_fields (decode_one pascal T) ! Suc (length pre) = (pascal (Name f), NullType f)"
    and "scan_args (decode_one pascal T) ! Suc (length pre) = pascal (Name f)"
    and "length pre < length (Fields T)" and "Fields T ! length pre = f"
  using assms by (simp_all add: decode_one_def nth_append)

lemma field_names_apart:
  assumes "Fields T = pre @ f # post" and "distinct (scan_args (decode_one pascal T))"
  shows "pascal (Name f) \<noteq> ''ID''"
    and "pascal (Name f) \<notin> set (map (\<lambda>g. pascal (Name g)) pre)"
    and "pascal (Name f) \<notin> set (map (\<lambda>g. pascal (Name g)) post)"
    and "''ID'' \<notin> set (map (\<lambda>g. pascal (Name g)) (Fields T))"
  using assms by (auto simp: decode_one_def)

lemma exec_post_keeps:
  "k \<notin> set (map (\<lambda>g. pascal (Name g)) post) \<Longrightarrow>
   fst (exec rt sc (map (emit_field pascal) post) r) k = r k"
  using exec_fields_keys [of rt sc pascal post r _ _ k]
  by (cases "exec rt sc (map (emit_field pascal) post) r") simp

lemma sample_pascal_age: "sample_pascal ''age'' = ''Age''"
  by code_simp

lemmas more_sample_defs = row_empty_json_def scanned_empty_json_def row_42_def scanned_42_def
  field_age_def sample_Pet_def row_age_def sample_pascal_age sample_User_string_def

lemma sample_well_typed: "well_typed sample_runtime"
proof -
  have "is_NullWrapper ty \<Longrightarrow> ty \<noteq> ''int'' \<and> ty \<noteq> ''[]byte''" for ty
    by (auto simp: is_NullWrapper_def)
  then show ?thesis
    unfolding well_typed_def sample_runtime_def
    by (auto simp: sample_convertAssign_def split: val.splits if_splits)
qed

lemma sample_scan_empty_json:
  "Scan sample_runtime (struct_fields (decode_one sample_pascal sample_User))
      (scan_args (decode_one sample_pascal sample_User)) row_empty_json = Inr scanned_empty_json"
  by (simp add: Scan_def decode_one_def id_struct_field_def sample_defs more_sample_defs)




lemma sample_fields:
  "Fields sample_User = [field_name, field_nick] @ field_meta # []"
  "Fields sample_User = [field_name] @ field_nick # [field_meta]"
  by (simp_all add: sample_User_def)

text \<open>
  C2: take a JSON field of an entity, declared with the raw byte storage type, and a row on
  which the scan succeeds and the statements before the field's return no error. The
  emitted struct declares the field's cell with that type and the scan call fills it from
  the field's column: the cell is a byte buffer. If the buffer is empty, the method goes on
  to the fields after it with the record as it was, and the field is in the end what
  it was before the call (its zero value, in a new record). If it is not empty and does
  not parse, the method returns the error "unmarshal field", the field's name and the
  message of the parse failure. If it parses, the method goes on and the field holds in
  the end what \<^verbatim>\<open>json.Unmarshal\<close> stored.
\<close>

theorem decode_json_field:
  assumes fields: "Fields T = pre @ f # post" and json: "IsJSON f"
    and bytes: "NullType f = json_NullType" and typed: "well_typed rt"
    and dist: "distinct (scan_args (decode_one pascal T))"
    and scan: "Scan rt (struct_fields (decode_one pascal T)) (scan_args (decode_one pascal T)) cols = Inr sc"
    and before: "exec rt sc (emit_id T # map (emit_field pascal) pre) recv = (recv1, None)"
  shows "struct_fields (decode_one pascal T) ! Suc (length pre) = (pascal (Name f), json_NullType) \<and>
     scan_args (decode_one pascal T) ! Suc (length pre) = pascal (Name f) \<and>
     (\<exists>b. convertAssign rt json_NullType (cols ! Suc (length pre)) = Inr (BytesV b) \<and>
        sc (pascal (Name f)) = Some (BytesV b) \<and>
        (b = [] \<longrightarrow>
           FromRows rt (decode_one pascal T) cols recv
             = exec rt sc (map (emit_field pascal) post) recv1 \<and>
           fst (FromRows rt (decode_one pascal T) cols recv) (pascal (Name f)) = recv (pascal (Name f))) \<and>
        (b \<noteq> [] \<longrightarrow>
           (\<forall>d msg. json_Unmarshal rt (pascal (Name f)) b (recv (pascal (Name f))) = (d, Some msg) \<longrightarrow>
              FromRows rt (decode_one pascal T) cols recv
                = (recv1(pascal (Name f) := d),
                   Some (Error (''unmarshal field '' @ Name f @ '': '' @ msg)))) \<and>
           (\<forall>d. json_Unmarshal rt (pascal (Name f)) b (recv (pascal (Name f))) = (d, None) \<longrightarrow>
              FromRows rt (decode_one pascal T) cols recv
                = exec rt sc (map (emit_field pascal) post) (recv1(pascal (Name f) := d)) \<and>
              fst (FromRows rt (decode_one pascal T) cols recv) (pascal (Name f)) = d)))"
proof -
  let ?F = "pascal (Name f)"
  let ?R = "FromRows rt (decode_one pascal T) cols recv"
  note pos = field_position [OF fields]
  note apart = field_names_apart [OF fields dist]
  from decode_one_cells(2) [OF dist scan pos(3)] pos(4) bytes
  have c: "map_option Inr (sc ?F) = Some (convertAssign rt json_NullType (cols ! Suc (length pre)))"
    by simp
  then obtain v where v: "sc ?F = Some v" "convertAssign rt json_NullType (cols ! Suc (length pre)) = Inr v"
    by (cases "sc ?F") auto
  with typed obtain b where b: "v = BytesV b"
    unfolding well_typed_def json_NullType_def by blast
  have old: "recv1 ?F = recv ?F"
    by (rule exec_before_keys [OF before apart(1) apart(2)])
  have stmt: "emit_field pascal f = IfUnmarshal (Name f) ?F"
    using json by (simp add: emit_field_def)
  note at = FromRows_at_field [OF fields scan before, unfolded stmt]
  have e: "b = [] \<longrightarrow> ?R = exec rt sc (map (emit_field pascal) post) recv1 \<and> fst ?R ?F = recv ?F"
    using at v b old exec_post_keeps [OF apart(3), of rt sc recv1] by simp
  have f: "\<forall>d msg. b \<noteq> [] \<and> json_Unmarshal rt ?F b (recv ?F) = (d, Some msg) \<longrightarrow>
      ?R = (recv1(?F := d), Some (Error (''unmarshal field '' @ Name f @ '': '' @ msg)))"
    using at v b old by simp
  have s: "\<forall>d. b \<noteq> [] \<and> json_Unmarshal rt ?F b (recv ?F) = (d, None) \<longrightarrow>
      ?R = exec rt sc (map (emit_field pascal) post) (recv1(?F := d)) \<and> fst ?R ?F = d"
  proof (intro allI impI)
    fix d assume h: "b \<noteq> [] \<and> json_Unmarshal rt ?F b (recv ?F) = (d, None)"
    with at v b old have r: "?R = exec rt sc (map (emit_field pascal) post) (recv1(?F := d))" by simp
    with exec_post_keeps [OF apart(3), of rt sc "recv1(?F := d)"]
    show "?R = exec rt sc (map (emit_field pascal) post) (recv1(?F := d)) \<and> fst ?R ?F = d" by simp
  qed
  from pos(1,2) bytes v b e f s show ?thesis by auto
qed

text \<open>C2, on the sample inputs.\<close>

theorem decode_json_field_witness:
  "IsJSON field_meta \<and> NullType field_meta = json_NullType \<and> well_typed sample_runtime \<and>
   FromRows sample_runtime (decode_one sample_pascal sample_User) row_empty_json Map.empty
     = ([''ID'' \<mapsto> IntV 9, ''Name'' \<mapsto> StrV ''cy''], None) \<and>
   fst (FromRows sample_runtime (decode_one sample_pascal sample_User) row_empty_json Map.empty) ''Meta''
     = None \<and>
   FromRows sample_runtime (decode_one sample_pascal sample_User) row_bad_json Map.empty
     = (decoded_bad_json(''Meta'' := None), Some (Error ''unmarshal field meta: invalid character'')) \<and>
   fst (FromRows sample_runtime (decode_one sample_pascal sample_User) row_full Map.empty) ''Meta''
     = Some (OtherV ''{}'')"
proof -
  let ?fn = "decode_one sample_pascal sample_User"
  have j: "IsJSON field_meta" and n: "NullType field_meta = json_NullType"
    by (simp_all add: sample_defs json_NullType_def)
  have F: "sample_pascal (Name field_meta) = ''Meta''" "Name field_meta = ''meta''"
    by (simp_all add: sample_defs)
  have pos: "Suc (length [field_name, field_nick]) = 3" by simp
  \<comment> \<open>the empty buffer\<close>
  have b1: "exec sample_runtime scanned_empty_json
      (emit_id sample_User # map (emit_field sample_pascal) [field_name, field_nick]) Map.empty
      = ([''ID'' \<mapsto> IntV 9, ''Name'' \<mapsto> StrV ''cy''], None)"
    by (simp add: emit_defs sample_defs more_sample_defs)
  note t1 = decode_json_field [where T = sample_User and pre = "[field_name, field_nick]"
      and f = field_meta and post = "[]" and rt = sample_runtime and pascal = sample_pascal
      and cols = row_empty_json and sc = scanned_empty_json and recv = Map.empty
      and ?recv1.0 = "[''ID'' \<mapsto> IntV 9, ''Name'' \<mapsto> StrV ''cy'']",
      OF sample_fields(1) j n sample_well_typed sample_distinct sample_scan_empty_json b1]
  have c1: "scanned_empty_json (sample_pascal (Name field_meta)) = Some (BytesV [])"
    by (simp add: sample_defs more_sample_defs)
  from t1 obtain b1' where
    "scanned_empty_json (sample_pascal (Name field_meta)) = Some (BytesV b1')"
    "b1' = [] \<longrightarrow>
       FromRows sample_runtime ?fn row_empty_json Map.empty
         = exec sample_runtime scanned_empty_json (map (emit_field sample_pascal) [])
             [''ID'' \<mapsto> IntV 9, ''Name'' \<mapsto> StrV ''cy''] \<and>
       fst (FromRows sample_runtime ?fn row_empty_json Map.empty) (sample_pascal (Name field_meta))
         = Map.empty (sample_pascal (Name field_meta))"
    by blast
  with c1 have r1: "FromRows sample_runtime ?fn row_empty_json Map.empty
      = ([''ID'' \<mapsto> IntV 9, ''Name'' \<mapsto> StrV ''cy''], None)"
    "fst (FromRows sample_runtime ?fn row_empty_json Map.empty) ''Meta'' = None"
    by (auto simp: F(1))
  \<comment> \<open>a buffer that does not parse\<close>
  have b2: "exec sample_runtime scanned_bad_json
      (emit_id sample_User # map (emit_field sample_pascal) [field_name, field_nick]) Map.empty
      = (decoded_bad_json, None)"
    by (simp add: emit_defs sample_defs decoded_bad_json_def)
  note t2 = decode_json_field [where T = sample_User and pre = "[field_name, field_nick]"
      and f = field_meta and post = "[]" and rt = sample_runtime and pascal = sample_pascal
      and cols = row_bad_json and sc = scanned_bad_json and recv = Map.empty
      and ?recv1.0 = decoded_bad_json,
      OF sample_fields(1) j n sample_well_typed sample_distinct sample_scan_bad_json b2]
  have c2: "scanned_bad_json (sample_pascal (Name field_meta)) = Some (BytesV ''{b'')"
    by (simp add: sample_defs)
  have u2: "json_Unmarshal sample_runtime (sample_pascal (Name field_meta)) ''{b''
      (Map.empty (sample_pascal (Name field_meta))) = (None, Some ''invalid character'')"
    by (simp add: sample_defs)
  from t2 obtain b2' where
    "scanned_bad_json (sample_pascal (Name field_meta)) = Some (BytesV b2')"
    "b2' \<noteq> [] \<longrightarrow>
       (\<forall>d msg. json_Unmarshal sample_runtime (sample_pascal (Name field_meta)) b2'
            (Map.empty (sample_pascal (Name field_meta))) = (d, Some msg) \<longrightarrow>
          FromRows sample_runtime ?fn row_bad_json Map.empty
            = (decoded_bad_json(sample_pascal (Name field_meta) := d),
               Some (Error (''unmarshal field '' @ Name field_meta @ '': '' @ msg))))"
    by blast
  with c2 u2 have r2: "FromRows sample_runtime ?fn row_bad_json Map.empty
      = (decoded_bad_json(''Meta'' := None), Some (Error ''unmarshal field meta: invalid character''))"
    by (auto simp: F(2) sample_pascal_names)
  \<comment> \<open>a buffer that parses\<close>
  have b3: "exec sample_runtime scanned_full
      (emit_id sample_User # map (emit_field sample_pascal) [field_name, field_nick]) Map.empty
      = ([''ID'' \<mapsto> IntV 7, ''Name'' \<mapsto> StrV ''al''], None)"
    by (simp add: emit_defs sample_defs)
  note t3 = decode_json_field [where T = sample_User and pre = "[field_name, field_nick]"
      and f = field_meta and post = "[]" and rt = sample_runtime and pascal = sample_pascal
      and cols = row_full and sc = scanned_full and recv = Map.empty
      and ?recv1.0 = "[''ID'' \<mapsto> IntV 7, ''Name'' \<mapsto> StrV ''al'']",
      OF sample_fields(1) j n sample_well_typed sample_distinct sample_scan_full b3]
  have c3: "scanned_full (sample_pascal (Name field_meta)) = Some (BytesV ''{}'')"
    by (simp add: sample_defs)
  have u3: "json_Unmarshal sample_runtime (sample_pascal (Name field_meta)) ''{}''
      (Map.empty (sample_pascal (Name field_meta))) = (Some (OtherV ''{}''), None)"
    by (simp add: sample_defs)
  from t3 obtain b3' where
    "scanned_full (sample_pascal (Name field_meta)) = Some (BytesV b3')"
    "b3' \<noteq> [] \<longrightarrow>
       (\<forall>d. json_Unmarshal sample_runtime (sample_pascal (Name field_meta)) b3'
            (Map.empty (sample_pascal (Name field_meta))) = (d, None) \<longrightarrow>
          FromRows sample_runtime ?fn row_full Map.empty
            = exec sample_runtime scanned_full (map (emit_field sample_pascal) [])
                ([''ID'' \<mapsto> IntV 7, ''Name'' \<mapsto> StrV ''al''](sample_pascal (Name field_meta) := d)) \<and>
          fst (FromRows sample_runtime ?fn row_full Map.empty) (sample_pascal (Name field_meta)) = d)"
    by blast
  with c3 u3 have r3: "fst (FromRows sample_runtime ?fn row_full Map.empty) ''Meta'' = Some (OtherV ''{}'')"
    by (auto simp: F(1))
  from j n sample_well_typed r1 r2 r3 show ?thesis by blast
qed











end
